theory Spec2Isabelle
  imports Main
begin

section \<open>JavaScript values that can be thrown\<close>

text \<open>
  Both hooks normalise whatever they catch:
  \<^verbatim>\<open>err instanceof Error ? err : new Error(String(err))\<close>.
  The code does two things with a caught value: it tests \<^verbatim>\<open>instanceof Error\<close> and, when the
  test fails, converts the value with \<^verbatim>\<open>String\<close>. A value is therefore either an \<^verbatim>\<open>Error\<close>
  instance, carrying its message, or a value that is not one. Of the latter, strings,
  booleans, BigInts, symbols, \<^verbatim>\<open>null\<close> and \<^verbatim>\<open>undefined\<close> are given as they are; a Number is
  given by the decimal form \<^verbatim>\<open>Number.prototype.toString\<close> yields for it; an object or
  function whose conversion returns is given by the string it returns (\<^verbatim>\<open>[object Object]\<close>
  for a plain object); and an object whose conversion throws (an object without
  prototype, an object with a throwing \<^verbatim>\<open>toString\<close>) is given by the value thrown.
\<close>

datatype js_error = NewError (message: string)

datatype js_value = ErrorObject js_error | NotError not_error
  and not_error =
    JsString string
  | JsBoolean bool
  | JsBigInt int
  | JsNumber string
  | JsSymbol string
  | JsNull
  | JsUndefined
  | JsObject string
  | Unconvertible js_value

definition digit_char :: "nat \<Rightarrow> char" where
  "digit_char d = char_of (48 + d)"

fun decimal :: "nat \<Rightarrow> string" where
  "decimal n = (if n < 10 then [digit_char n] else decimal (n div 10) @ [digit_char (n mod 10)])"

declare decimal.simps [simp del]

text \<open>
  \<^verbatim>\<open>String(v)\<close> on a value that is not an \<^verbatim>\<open>Error\<close>: the string, or the value the conversion
  throws.
\<close>

fun String_js :: "not_error \<Rightarrow> js_value + string" where
  "String_js (JsString s) = Inr s"
| "String_js (JsBoolean b) = Inr (if b then ''true'' else ''false'')"
| "String_js (JsBigInt i) =
     Inr (if i < 0 then CHR ''-'' # decimal (nat (- i)) else decimal (nat i))"
| "String_js (JsNumber s) = Inr s"
| "String_js (JsSymbol description) = Inr (''Symbol('' @ description @ '')'')"
| "String_js JsNull = Inr ''null''"
| "String_js JsUndefined = Inr ''undefined''"
| "String_js (JsObject s) = Inr s"
| "String_js (Unconvertible thrown) = Inl thrown"

text \<open>
  \<^verbatim>\<open>err instanceof Error ? err : new Error(String(err))\<close>: the error object, or the value
  thrown while converting.
\<close>

fun toError :: "js_value \<Rightarrow> js_value + js_error" where
  "toError (ErrorObject err) = Inr err"
| "toError (NotError v) =
     (case String_js v of Inl thrown \<Rightarrow> Inl thrown | Inr s \<Rightarrow> Inr (NewError s))"

definition convertible :: "js_value \<Rightarrow> bool" where
  "convertible v = (case toError v of Inl _ \<Rightarrow> False | Inr _ \<Rightarrow> True)"

text \<open>
  A settled promise either resolves with a value or rejects with a thrown value. A promise
  that never settles is the absence of an outcome (\<open>None\<close> where an outcome is optional).
\<close>

datatype 'a outcome = Resolves 'a | Rejects js_value

section \<open>useAsync\<close>

datatype Status = StatusIdle | StatusLoading | StatusSuccess | StatusError

text \<open>
  The three \<^verbatim>\<open>useState\<close> cells and the \<^verbatim>\<open>isMountedRef\<close> of one hook instance.
  \<open>calls\<close> counts the invocations of \<^verbatim>\<open>asyncFunctionRef.current\<close>, and \<open>renderError\<close> holds
  what a state updater threw, if one did.
\<close>

record 'a tracker =
  status :: Status
  data :: "'a option"
  error :: "js_error option"
  isMountedRef :: bool
  calls :: nat
  renderError :: "js_value option"

definition initial :: "'a tracker" where
  "initial =
     \<lparr>status = StatusIdle, data = None, error = None, isMountedRef = True, calls = 0,
      renderError = None\<rparr>"

text \<open>
  What the wrapped operation resolves with, of the unconstrained type \<^verbatim>\<open>T\<close>: a value that
  is not a function (possibly \<^verbatim>\<open>null\<close>), or a function, given by what it does when called
  with a state: it returns a value or throws.
\<close>

datatype 'a response =
    Plain "'a option"
  | Callable "'a option \<Rightarrow> js_value + 'a option"

text \<open>
  The reducer of React's \<^verbatim>\<open>useState\<close>:
  \<^verbatim>\<open>typeof action === 'function' ? action(state) : action\<close>.
\<close>

definition basicStateReducer :: "'a option \<Rightarrow> 'a response \<Rightarrow> js_value + 'a option" where
  "basicStateReducer state action =
     (case action of Plain v \<Rightarrow> Inr v | Callable f \<Rightarrow> f state)"

definition setStatus :: "Status \<Rightarrow> 'a tracker \<Rightarrow> 'a tracker" where
  "setStatus v t = t\<lparr>status := v\<rparr>"

text \<open>
  \<^verbatim>\<open>setData\<close> is called with \<^verbatim>\<open>null\<close> and with the response. A response that is a function
  is taken by React as an updater: it is called with the pending state and what it
  returns is stored. When the updater throws, the render throws; the cell keeps its value
  and the thrown value is recorded.
\<close>

definition setData :: "'a response \<Rightarrow> 'a tracker \<Rightarrow> 'a tracker" where
  "setData action t =
     (case basicStateReducer (data t) action of
        Inr v \<Rightarrow> t\<lparr>data := v\<rparr>
      | Inl thrown \<Rightarrow> t\<lparr>renderError := Some thrown\<rparr>)"

text \<open>\<^verbatim>\<open>setError\<close> is called with \<^verbatim>\<open>null\<close> and with \<^verbatim>\<open>Error\<close> objects only, never a function.\<close>

definition setError :: "js_error option \<Rightarrow> 'a tracker \<Rightarrow> 'a tracker" where
  "setError v t = t\<lparr>error := v\<rparr>"

text \<open>
  \<^verbatim>\<open>execute\<close> is an async function. Its synchronous part runs up to the \<^verbatim>\<open>await\<close>:
  the three setters, then the call of the wrapped operation.
\<close>

definition execute_clear :: "'a tracker \<Rightarrow> 'a tracker" where
  "execute_clear t = setError None (setData (Plain None) (setStatus StatusLoading t))"

definition call_asyncFunction :: "'a tracker \<Rightarrow> 'a tracker" where
  "call_asyncFunction t = t\<lparr>calls := Suc (calls t)\<rparr>"

definition execute_begin :: "'a tracker \<Rightarrow> 'a tracker" where
  "execute_begin t = call_asyncFunction (execute_clear t)"

text \<open>
  The rest of \<^verbatim>\<open>execute\<close> runs when the awaited promise settles, on the tracker as it is at
  that moment: the remainder of the \<^verbatim>\<open>try\<close> block on resolution, the \<^verbatim>\<open>catch\<close> block on
  rejection (a wrapped operation that throws when called enters the \<^verbatim>\<open>catch\<close> block the same
  way). The second component is the outcome of the promise \<^verbatim>\<open>execute\<close> returned: a throw of
  \<^verbatim>\<open>String(err)\<close> inside the \<^verbatim>\<open>catch\<close> block leaves the function before any setter runs and
  rejects that promise.
\<close>

definition execute_settle ::
  "'a response outcome \<Rightarrow> 'a tracker \<Rightarrow> 'a tracker \<times> unit outcome" where
  "execute_settle oc t =
     (case oc of
        Resolves response \<Rightarrow>
          (if isMountedRef t
           then (setStatus StatusSuccess (setData response t), Resolves ())
           else (t, Resolves ()))
      | Rejects err \<Rightarrow>
          (if isMountedRef t
           then (case toError err of
                   Inl thrown \<Rightarrow> (t, Rejects thrown)
                 | Inr errorObj \<Rightarrow>
                     (setStatus StatusError (setError (Some errorObj) t), Resolves ()))
           else (t, Resolves ())))"

definition reset :: "'a tracker \<Rightarrow> 'a tracker" where
  "reset t = setError None (setData (Plain None) (setStatus StatusIdle t))"

text \<open>The \<^verbatim>\<open>useEffect\<close> body and its cleanup.\<close>

definition effect :: "bool \<Rightarrow> 'a tracker \<Rightarrow> 'a tracker" where
  "effect immediate t =
     (let t1 = t\<lparr>isMountedRef := True\<rparr> in if immediate then execute_begin t1 else t1)"

definition cleanup :: "'a tracker \<Rightarrow> 'a tracker" where
  "cleanup t = t\<lparr>isMountedRef := False\<rparr>"

text \<open>What the hook returns to the component on a render.\<close>

record 'a UseAsyncReturn =
  ret_data :: "'a option"
  ret_error :: "js_error option"
  ret_status :: Status
  ret_loading :: bool

definition useAsync_return :: "'a tracker \<Rightarrow> 'a UseAsyncReturn" where
  "useAsync_return t =
     \<lparr>ret_data = data t, ret_error = error t, ret_status = status t,
      ret_loading = (status t = StatusLoading)\<rparr>"

text \<open>
  Everything that can happen to one hook instance, in the order the event loop runs it:
  a call of \<^verbatim>\<open>execute\<close> (its synchronous part), the settlement of a pending call, a call of
  \<^verbatim>\<open>reset\<close>, a run of the effect and a run of its cleanup.
\<close>

datatype 'a event =
    Execute
  | Settle "'a response outcome"
  | Reset
  | Effect bool
  | Cleanup

fun step :: "'a tracker \<Rightarrow> 'a event \<Rightarrow> 'a tracker" where
  "step t Execute = execute_begin t"
| "step t (Settle oc) = fst (execute_settle oc t)"
| "step t Reset = reset t"
| "step t (Effect immediate) = effect immediate t"
| "step t Cleanup = cleanup t"

definition run :: "'a event list \<Rightarrow> 'a tracker \<Rightarrow> 'a tracker" where
  "run evs t = foldl step t evs"

text \<open>
  One whole call of \<^verbatim>\<open>execute\<close>: its synchronous part, the events \<open>between\<close> that the event
  loop runs while the call awaits, and its settlement with outcome \<open>oc\<close>.
\<close>

definition execute ::
  "'a event list \<Rightarrow> 'a response outcome \<Rightarrow> 'a tracker \<Rightarrow> 'a tracker \<times> unit outcome" where
  "execute between oc t = execute_settle oc (run between (execute_begin t))"

text \<open>Events that are the settlement of some call with a rejection, or with a result.\<close>

fun settles_rejected :: "'a event \<Rightarrow> bool" where
  "settles_rejected (Settle (Rejects _)) = True"
| "settles_rejected _ = False"

fun settles_resolved :: "'a event \<Rightarrow> bool" where
  "settles_resolved (Settle (Resolves _)) = True"
| "settles_resolved _ = False"

section \<open>useCopyToClipboard\<close>

text \<open>
  The hook keeps one state cell, \<^verbatim>\<open>copiedText\<close>, of type \<^verbatim>\<open>string | null\<close>. It is only ever
  set to a string or to \<^verbatim>\<open>null\<close>.
\<close>

type_synonym CopiedValue = "string option"

text \<open>
  A callback is a function of the caller: invoked on its argument it either returns
  (\<open>None\<close>) or throws a value.
\<close>

type_synonym 'a callback = "'a \<Rightarrow> js_value option"

record CopyOptions =
  onSuccess :: "string callback option"
  onError :: "(js_error \<times> string) callback option"

text \<open>
  The platform the hook runs on. The identifier \<^verbatim>\<open>navigator\<close> may be undeclared (a runtime
  without it); when it is declared, \<^verbatim>\<open>navigator?.clipboard\<close> is falsy (\<open>None\<close>) or there is a
  clipboard, given by what its \<^verbatim>\<open>writeText\<close> does for a text: it resolves, rejects (or
  throws), or never settles (\<open>None\<close>).
\<close>

datatype platform =
    NavigatorUndeclared
  | Navigator "(string \<Rightarrow> unit outcome option) option"

text \<open>
  Reading an undeclared identifier throws a \<^verbatim>\<open>ReferenceError\<close>, also under \<^verbatim>\<open>?.\<close>.
\<close>

definition navigator_is_not_defined :: js_value where
  "navigator_is_not_defined = ErrorObject (NewError ''navigator is not defined'')"

text \<open>
  What a call of \<^verbatim>\<open>copy\<close> does to the world, in order: console warnings with their
  arguments after the message, the call of \<^verbatim>\<open>navigator.clipboard.writeText\<close>, writes of the
  state cell and invocations of the two callbacks with the fields of their argument
  object.
\<close>

datatype copy_effect =
    ConsoleWarn string "js_value list"
  | WriteText string
  | SetCopiedText CopiedValue
  | OnSuccess string
  | OnError js_error string

text \<open>\<^verbatim>\<open>if (options?.onSuccess) { options.onSuccess({ text }) }\<close>\<close>

definition call_onSuccess ::
  "CopyOptions option \<Rightarrow> string \<Rightarrow> copy_effect list \<times> js_value option" where
  "call_onSuccess options text =
     (case options of
        None \<Rightarrow> ([], None)
      | Some opts \<Rightarrow>
          (case onSuccess opts of
             None \<Rightarrow> ([], None)
           | Some f \<Rightarrow> ([OnSuccess text], f text)))"

text \<open>\<^verbatim>\<open>if (options?.onError) { options.onError({ error, text }) }\<close>\<close>

definition call_onError ::
  "CopyOptions option \<Rightarrow> js_error \<Rightarrow> string \<Rightarrow> copy_effect list \<times> js_value option" where
  "call_onError options err text =
     (case options of
        None \<Rightarrow> ([], None)
      | Some opts \<Rightarrow>
          (case onError opts of
             None \<Rightarrow> ([], None)
           | Some f \<Rightarrow> ([OnError err text], f (err, text))))"

text \<open>
  The \<^verbatim>\<open>catch\<close> block of \<^verbatim>\<open>copy\<close>, entered with whatever the \<^verbatim>\<open>try\<close> block threw. A throw of
  \<^verbatim>\<open>String(error)\<close> or of \<^verbatim>\<open>onError\<close> here leaves the function: the returned promise rejects
  with the thrown value.
\<close>

definition copy_catch ::
  "js_value \<Rightarrow> string \<Rightarrow> CopyOptions option \<Rightarrow> copy_effect list \<times> bool outcome" where
  "copy_catch err text options =
     (case toError err of
        Inl thrown \<Rightarrow> ([ConsoleWarn ''Copy failed'' [err], SetCopiedText None], Rejects thrown)
      | Inr errorObj \<Rightarrow>
          (let (called, thrown) = call_onError options errorObj text
           in ([ConsoleWarn ''Copy failed'' [err], SetCopiedText None] @ called,
               case thrown of Some v \<Rightarrow> Rejects v | None \<Rightarrow> Resolves False)))"

text \<open>
  \<^verbatim>\<open>copy(text, options)\<close> on a platform. The guard \<^verbatim>\<open>!navigator?.clipboard\<close> is outside the
  \<^verbatim>\<open>try\<close> block, so its \<^verbatim>\<open>ReferenceError\<close> rejects the returned promise. The result is the
  effects of the call in order and the outcome of the returned promise, \<open>None\<close> when it
  never settles.
\<close>

definition copy ::
  "platform \<Rightarrow> string \<Rightarrow> CopyOptions option \<Rightarrow> copy_effect list \<times> bool outcome option" where
  "copy navigator text options =
     (case navigator of
        NavigatorUndeclared \<Rightarrow> ([], Some (Rejects navigator_is_not_defined))
      | Navigator None \<Rightarrow>
          (let err = NewError ''Clipboard not supported'';
               (called, thrown) = call_onError options err text
           in ([ConsoleWarn ''Clipboard not supported'' []] @ called,
               Some (case thrown of Some v \<Rightarrow> Rejects v | None \<Rightarrow> Resolves False)))
      | Navigator (Some writeText) \<Rightarrow>
          (case writeText text of
             None \<Rightarrow> ([WriteText text], None)
           | Some (Rejects err) \<Rightarrow>
               (let (handled, res) = copy_catch err text options
                in ([WriteText text] @ handled, Some res))
           | Some (Resolves _) \<Rightarrow>
               (let (called, thrown) = call_onSuccess options text
                in (case thrown of
                      None \<Rightarrow>
                        ([WriteText text, SetCopiedText (Some text)] @ called, Some (Resolves True))
                    | Some err \<Rightarrow>
                        (let (handled, res) = copy_catch err text options
                         in ([WriteText text, SetCopiedText (Some text)] @ called @ handled,
                             Some res))))))"

text \<open>The state cell after a sequence of effects: the last \<^verbatim>\<open>setCopiedText\<close> wins.\<close>

fun apply_effect :: "CopiedValue \<Rightarrow> copy_effect \<Rightarrow> CopiedValue" where
  "apply_effect copiedText (SetCopiedText v) = v"
| "apply_effect copiedText _ = copiedText"

definition copiedText_after :: "copy_effect list \<Rightarrow> CopiedValue \<Rightarrow> CopiedValue" where
  "copiedText_after effects copiedText = foldl apply_effect copiedText effects"

text \<open>
  The three paths through \<^verbatim>\<open>copy\<close>, decided by the platform alone: the body of the guard,
  the \<^verbatim>\<open>try\<close> block with a write that resolves, and the \<^verbatim>\<open>catch\<close> block after a write that
  fails. No path is taken when the guard itself throws or while the write is pending.
\<close>

datatype copy_branch = CapabilityMissing | WriteFailure | WriteSuccess

definition branch_of :: "platform \<Rightarrow> string \<Rightarrow> copy_branch option" where
  "branch_of navigator text =
     (case navigator of
        NavigatorUndeclared \<Rightarrow> None
      | Navigator None \<Rightarrow> Some CapabilityMissing
      | Navigator (Some writeText) \<Rightarrow>
          (case writeText text of
             None \<Rightarrow> None
           | Some (Rejects _) \<Rightarrow> Some WriteFailure
           | Some (Resolves _) \<Rightarrow> Some WriteSuccess))"

text \<open>
  The value the \<^verbatim>\<open>catch\<close> block is entered with, when it is entered: what the write
  rejected with, or what \<^verbatim>\<open>onSuccess\<close> threw after a write that resolved.
\<close>

definition caught :: "platform \<Rightarrow> string \<Rightarrow> CopyOptions option \<Rightarrow> js_value option" where
  "caught navigator text options =
     (case navigator of
        NavigatorUndeclared \<Rightarrow> None
      | Navigator None \<Rightarrow> None
      | Navigator (Some writeText) \<Rightarrow>
          (case writeText text of
             None \<Rightarrow> None
           | Some (Rejects err) \<Rightarrow> Some err
           | Some (Resolves _) \<Rightarrow> snd (call_onSuccess options text)))"

fun is_OnSuccess :: "copy_effect \<Rightarrow> bool" where
  "is_OnSuccess (OnSuccess _) = True"
| "is_OnSuccess _ = False"

fun is_OnError :: "copy_effect \<Rightarrow> bool" where
  "is_OnError (OnError _ _) = True"
| "is_OnError _ = False"

fun is_WriteText :: "copy_effect \<Rightarrow> bool" where
  "is_WriteText (WriteText _) = True"
| "is_WriteText _ = False"

text \<open>
  Whether the callback invocation that an effect records returned; an effect that is not
  an invocation counts as returned.
\<close>

fun returned :: "CopyOptions option \<Rightarrow> copy_effect \<Rightarrow> bool" where
  "returned options (OnSuccess text) = (snd (call_onSuccess options text) = None)"
| "returned options (OnError err text) = (snd (call_onError options err text) = None)"
| "returned options _ = True"

text \<open>\<^verbatim>\<open>options?.onSuccess\<close> and \<^verbatim>\<open>options?.onError\<close> as truth values.\<close>

definition onSuccess_supplied :: "CopyOptions option \<Rightarrow> bool" where
  "onSuccess_supplied options =
     (case options of
        None \<Rightarrow> False
      | Some opts \<Rightarrow> (case onSuccess opts of None \<Rightarrow> False | Some _ \<Rightarrow> True))"

definition onError_supplied :: "CopyOptions option \<Rightarrow> bool" where
  "onError_supplied options =
     (case options of
        None \<Rightarrow> False
      | Some opts \<Rightarrow> (case onError opts of None \<Rightarrow> False | Some _ \<Rightarrow> True))"

section \<open>Test doubles\<close>

text \<open>
  The mocks of the test suites: \<^verbatim>\<open>vitest.fn()\<close> returns \<^verbatim>\<open>undefined\<close>, so it is a callback
  that returns and a \<^verbatim>\<open>writeText\<close> whose awaited result resolves;
  \<^verbatim>\<open>vitest.fn().mockRejectedValue(v)\<close> is a \<^verbatim>\<open>writeText\<close> that rejects with \<open>v\<close>. A callback
  that throws, a \<^verbatim>\<open>writeText\<close> that stays pending, the object \<^verbatim>\<open>Object.create(null)\<close>, whose
  conversion to a string throws a \<^verbatim>\<open>TypeError\<close>, a function that ignores its argument and
  returns, and a function that throws complete the set.
\<close>

definition mockData :: string where
  "mockData = ''Test value''"

definition fn_returns :: "'a callback" where
  "fn_returns arg = None"

definition fn_throws :: "js_value \<Rightarrow> 'a callback" where
  "fn_throws v arg = Some v"

definition writeText_resolves :: "string \<Rightarrow> unit outcome option" where
  "writeText_resolves text = Some (Resolves ())"

definition writeText_rejects :: "js_value \<Rightarrow> string \<Rightarrow> unit outcome option" where
  "writeText_rejects v text = Some (Rejects v)"

definition writeText_pending :: "string \<Rightarrow> unit outcome option" where
  "writeText_pending text = None"

definition object_without_prototype :: js_value where
  "object_without_prototype =
     NotError (Unconvertible (ErrorObject (NewError ''Cannot convert object to primitive value'')))"

definition constant_function :: "'a option \<Rightarrow> 'a option \<Rightarrow> js_value + 'a option" where
  "constant_function v state = Inr v"

definition throwing_function :: "js_value \<Rightarrow> 'a option \<Rightarrow> js_value + 'a option" where
  "throwing_function thrown state = Inl thrown"

section \<open>Properties of the async tracker\<close>

lemmas setters = setStatus_def setData_def setError_def basicStateReducer_def

lemma run_Nil: "run [] t = t"
  by (simp add: run_def)

lemma run_Cons: "run (e # evs) t = run evs (step t e)"
  by (simp add: run_def)

lemma execute_begin_fields:
  "status (execute_begin t) = StatusLoading"
  "data (execute_begin t) = None"
  "error (execute_begin t) = None"
  "calls (execute_begin t) = Suc (calls t)"
  "isMountedRef (execute_begin t) = isMountedRef t"
  by (simp_all add: execute_begin_def execute_clear_def call_asyncFunction_def setters)

lemma setData_other_fields:
  "status (setData action t) = status t"
  "error (setData action t) = error t"
  "isMountedRef (setData action t) = isMountedRef t"
  "calls (setData action t) = calls t"
  by (simp_all add: setData_def split: sum.splits)

text \<open>
  Only the settlement of a rejected call writes a non-null \<open>error\<close>, and only the settlement
  of a resolved call writes a non-null \<open>data\<close>.
\<close>

lemma step_error_None:
  "error t = None \<Longrightarrow> \<not> settles_rejected e \<Longrightarrow> error (step t e) = None"
  by (cases e rule: settles_rejected.cases)
     (simp_all add: execute_begin_fields execute_settle_def reset_def effect_def cleanup_def
        setStatus_def setError_def setData_other_fields Let_def)

lemma run_error_None:
  "error t = None \<Longrightarrow> list_all (\<lambda>e. \<not> settles_rejected e) evs \<Longrightarrow> error (run evs t) = None"
proof (induction evs arbitrary: t)
  case Nil
  then show ?case by (simp add: run_Nil)
next
  case (Cons e evs)
  from Cons.prems have "error (step t e) = None"
    by (simp add: step_error_None)
  with Cons show ?case by (simp add: run_Cons)
qed

lemma step_data_None:
  "data t = None \<Longrightarrow> \<not> settles_resolved e \<Longrightarrow> data (step t e) = None"
  by (cases e rule: settles_resolved.cases)
     (simp_all add: execute_begin_fields execute_settle_def reset_def effect_def cleanup_def
        setters Let_def split: sum.splits)

lemma run_data_None:
  "data t = None \<Longrightarrow> list_all (\<lambda>e. \<not> settles_resolved e) evs \<Longrightarrow> data (run evs t) = None"
proof (induction evs arbitrary: t)
  case Nil
  then show ?case by (simp add: run_Nil)
next
  case (Cons e evs)
  from Cons.prems have "data (step t e) = None"
    by (simp add: step_data_None)
  with Cons show ?case by (simp add: run_Cons)
qed

lemmas tracker_eval = execute_def run_def execute_settle_def execute_begin_def
  execute_clear_def call_asyncFunction_def reset_def effect_def cleanup_def setters initial_def
  object_without_prototype_def constant_function_def throwing_function_def

text \<open>
  C2: when the wrapped operation of a call of \<^verbatim>\<open>execute\<close> settles while the liveness flag
  is cleared, the settlement writes nothing: the tracker after it is the tracker just
  before it, whatever the outcome.
\<close>

theorem settle_after_teardown_dropped:
  assumes "\<not> isMountedRef (run between (execute_begin t))"
  shows "fst (execute between oc t) = run between (execute_begin t)"
  using assms by (cases oc) (simp_all add: execute_def execute_settle_def)

text \<open>
  The test \<^verbatim>\<open>should not update state after unmount\<close>: execute, unmount, then resolve; the
  status stays \<^verbatim>\<open>loading\<close>.
\<close>

theorem settle_after_teardown_dropped_witness:
  "\<not> isMountedRef (run [Cleanup] (execute_begin (initial :: string tracker)))
   \<and> fst (execute [Cleanup] (Resolves (Plain (Some ''data''))) initial)
       = run [Cleanup] (execute_begin initial)
   \<and> status (fst (execute [Cleanup] (Resolves (Plain (Some ''data''))) (initial :: string tracker)))
       = StatusLoading"
proof -
  have torn_down: "\<not> isMountedRef (run [Cleanup] (execute_begin (initial :: string tracker)))"
    by (simp add: run_def cleanup_def)
  have "status (run [Cleanup] (execute_begin (initial :: string tracker))) = StatusLoading"
    by (simp add: run_def cleanup_def execute_begin_fields)
  with torn_down
    settle_after_teardown_dropped [OF torn_down, of "Resolves (Plain (Some ''data''))"]
  show ?thesis by simp
qed

text \<open>
  Three ways in which a successful settlement with a live consumer leaves something else
  than status success, data the result and error absent. A successful settlement does not
  write \<open>error\<close>: of two overlapping calls the second rejects first and stores its error,
  then the first resolves, and the tracker ends with status \<^verbatim>\<open>success\<close> and the error of
  the other call. A result that is a function is not stored: React calls it with the
  pending state \<^verbatim>\<open>null\<close> and stores what it returns, here 7. And when that function throws,
  nothing is stored.
\<close>

theorem execute_success_live_counterexample:
  "isMountedRef (run [Execute, Settle (Rejects (NotError (JsString ''late'')))]
                   (execute_begin (initial :: nat tracker)))
   \<and> status (fst (execute [Execute, Settle (Rejects (NotError (JsString ''late'')))]
                  (Resolves (Plain (Some 1))) (initial :: nat tracker))) = StatusSuccess
   \<and> error (fst (execute [Execute, Settle (Rejects (NotError (JsString ''late'')))]
                  (Resolves (Plain (Some 1))) (initial :: nat tracker))) = Some (NewError ''late'')
   \<and> isMountedRef (run [] (execute_begin (initial :: nat tracker)))
   \<and> data (fst (execute [] (Resolves (Callable (constant_function (Some 7))))
                  (initial :: nat tracker))) = Some 7
   \<and> data (fst (execute [] (Resolves (Callable (throwing_function (NotError (JsString ''no'')))))
                  (initial :: nat tracker))) = None
   \<and> renderError
        (fst (execute [] (Resolves (Callable (throwing_function (NotError (JsString ''no'')))))
                (initial :: nat tracker))) = Some (NotError (JsString ''no''))"
  by (simp add: tracker_eval)

text \<open>
  C3 (amended): when the wrapped operation of a call of \<^verbatim>\<open>execute\<close> resolves with \<open>r\<close> and
  the consumer is live at settlement, then, provided \<open>r\<close> is not a function or is a
  function that returns when React calls it with the pending data, the tracker afterwards
  has status success and as data what React stores for \<open>r\<close>: \<open>r\<close> itself when it is not a
  function, what \<open>r\<close> returns otherwise; the settlement leaves \<open>error\<close> as it was, and
  \<open>error\<close> is absent whenever no other call settled with a rejection between this call's
  start and its settlement.
\<close>

theorem execute_success_live:
  assumes "isMountedRef (run between (execute_begin t))"
    and "basicStateReducer (data (run between (execute_begin t))) r = Inr d"
  shows "status (fst (execute between (Resolves r) t)) = StatusSuccess
       \<and> data (fst (execute between (Resolves r) t)) = d
       \<and> (\<forall>v. r = Plain v \<longrightarrow> d = v)
       \<and> error (fst (execute between (Resolves r) t)) = error (run between (execute_begin t))
       \<and> (list_all (\<lambda>e. \<not> settles_rejected e) between
            \<longrightarrow> error (fst (execute between (Resolves r) t)) = None)"
proof -
  let ?s = "run between (execute_begin t)"
  have settled: "fst (execute between (Resolves r) t) = setStatus StatusSuccess (?s\<lparr>data := d\<rparr>)"
    using assms by (simp add: execute_def execute_settle_def setData_def)
  have plain: "\<forall>v. r = Plain v \<longrightarrow> d = v"
    using assms(2) by (auto simp add: basicStateReducer_def)
  have "list_all (\<lambda>e. \<not> settles_rejected e) between \<Longrightarrow> error ?s = None"
    by (rule run_error_None) (simp_all add: execute_begin_fields)
  with settled plain show ?thesis by (simp add: setStatus_def)
qed

theorem execute_success_live_witness:
  "isMountedRef (run [Execute, Settle (Resolves (Plain (Some ''first''))), Reset]
                   (execute_begin initial))
   \<and> basicStateReducer
        (data (run [Execute, Settle (Resolves (Plain (Some ''first''))), Reset]
                 (execute_begin initial)))
        (Plain (Some ''second'')) = Inr (Some ''second'')
   \<and> list_all (\<lambda>e. \<not> settles_rejected e)
        [Execute, Settle (Resolves (Plain (Some ''first''))), Reset]
   \<and> status (fst (execute [Execute, Settle (Resolves (Plain (Some ''first''))), Reset]
                  (Resolves (Plain (Some ''second''))) initial)) = StatusSuccess
   \<and> data (fst (execute [Execute, Settle (Resolves (Plain (Some ''first''))), Reset]
                  (Resolves (Plain (Some ''second''))) initial)) = Some ''second''
   \<and> error (fst (execute [Execute, Settle (Resolves (Plain (Some ''first''))), Reset]
                  (Resolves (Plain (Some ''second''))) initial)) = None
   \<and> basicStateReducer
        (data (run [Execute, Settle (Resolves (Plain (Some ''first''))), Reset]
                 (execute_begin initial)))
        (Callable (constant_function (Some ''third''))) = Inr (Some ''third'')
   \<and> data (fst (execute [Execute, Settle (Resolves (Plain (Some ''first''))), Reset]
                  (Resolves (Callable (constant_function (Some ''third'')))) initial))
       = Some ''third''"
proof -
  let ?between = "[Execute, Settle (Resolves (Plain (Some ''first''))), Reset] :: string event list"
  have live: "isMountedRef (run ?between (execute_begin (initial :: string tracker)))"
    by (simp add: tracker_eval)
  have stored: "basicStateReducer (data (run ?between (execute_begin (initial :: string tracker))))
                  (Plain (Some ''second'')) = Inr (Some ''second'')"
    by (simp add: basicStateReducer_def)
  have quiet: "list_all (\<lambda>e. \<not> settles_rejected e) ?between"
    by simp
  have called: "basicStateReducer (data (run ?between (execute_begin (initial :: string tracker))))
                  (Callable (constant_function (Some ''third''))) = Inr (Some ''third'')"
    by (simp add: basicStateReducer_def constant_function_def)
  from live stored quiet called
    execute_success_live [OF live stored] execute_success_live [OF live called]
  show ?thesis by blast
qed

text \<open>
  Two ways in which a failed settlement with a live consumer leaves something else than
  status error, data absent and the normalised error. A failed settlement does not write
  \<open>data\<close>: of two overlapping calls the second resolves first and stores its result, then
  the first rejects, and the tracker ends with status \<^verbatim>\<open>error\<close> and the data of the other
  call. And a rejection with \<^verbatim>\<open>Object.create(null)\<close> makes \<^verbatim>\<open>String(err)\<close> throw inside the
  \<^verbatim>\<open>catch\<close> block: no setter runs, the status stays \<^verbatim>\<open>loading\<close> and the promise of \<^verbatim>\<open>execute\<close>
  rejects.
\<close>

theorem execute_failure_live_counterexample:
  "isMountedRef (run [Execute, Settle (Resolves (Plain (Some 2)))]
                   (execute_begin (initial :: nat tracker)))
   \<and> status (fst (execute [Execute, Settle (Resolves (Plain (Some 2)))]
                  (Rejects (NotError (JsString ''boom''))) (initial :: nat tracker))) = StatusError
   \<and> data (fst (execute [Execute, Settle (Resolves (Plain (Some 2)))]
                  (Rejects (NotError (JsString ''boom''))) (initial :: nat tracker))) = Some 2
   \<and> isMountedRef (run [] (execute_begin (initial :: nat tracker)))
   \<and> status (fst (execute [] (Rejects object_without_prototype) (initial :: nat tracker)))
       = StatusLoading
   \<and> error (fst (execute [] (Rejects object_without_prototype) (initial :: nat tracker))) = None"
  by (simp add: tracker_eval)

text \<open>
  C4 (amended): when the wrapped operation of a call of \<^verbatim>\<open>execute\<close> rejects with an
  arbitrary value \<open>v\<close> and the consumer is live at settlement, then, provided \<open>v\<close> is an
  error or \<^verbatim>\<open>String(v)\<close> returns, the tracker afterwards has status error and its error is
  \<open>v\<close> itself if \<open>v\<close> is an error object, otherwise a new error whose message is the string
  form of \<open>v\<close>; the settlement leaves \<open>data\<close> as it was, and \<open>data\<close> is absent whenever no
  other call settled with a result between this call's start and its settlement.
\<close>

theorem execute_failure_live:
  assumes "isMountedRef (run between (execute_begin t))"
    and "toError v = Inr e"
  shows "status (fst (execute between (Rejects v) t)) = StatusError
       \<and> error (fst (execute between (Rejects v) t)) = Some e
       \<and> (case v of ErrorObject x \<Rightarrow> e = x | NotError p \<Rightarrow> String_js p = Inr (message e))
       \<and> data (fst (execute between (Rejects v) t)) = data (run between (execute_begin t))
       \<and> (list_all (\<lambda>e. \<not> settles_resolved e) between
            \<longrightarrow> data (fst (execute between (Rejects v) t)) = None)"
proof -
  let ?s = "run between (execute_begin t)"
  have settled:
    "fst (execute between (Rejects v) t) = setStatus StatusError (setError (Some e) ?s)"
    using assms by (simp add: execute_def execute_settle_def)
  have norm: "case v of ErrorObject x \<Rightarrow> e = x | NotError p \<Rightarrow> String_js p = Inr (message e)"
    using assms(2) by (cases v) (auto split: sum.splits)
  have "list_all (\<lambda>e. \<not> settles_resolved e) between \<Longrightarrow> data ?s = None"
    by (rule run_data_None) (simp_all add: execute_begin_fields)
  with settled norm show ?thesis by (simp add: setStatus_def setError_def)
qed

theorem execute_failure_live_witness:
  "isMountedRef (run [Execute, Settle (Rejects (ErrorObject (NewError ''Test error'')))]
                   (execute_begin (initial :: nat tracker)))
   \<and> toError (NotError (JsNumber ''0.30000000000000004'')) = Inr (NewError ''0.30000000000000004'')
   \<and> list_all (\<lambda>e. \<not> settles_resolved e)
        [Execute, Settle (Rejects (ErrorObject (NewError ''Test error''))) :: nat event]
   \<and> status (fst (execute [Execute, Settle (Rejects (ErrorObject (NewError ''Test error'')))]
                  (Rejects (NotError (JsNumber ''0.30000000000000004''))) (initial :: nat tracker)))
       = StatusError
   \<and> error (fst (execute [Execute, Settle (Rejects (ErrorObject (NewError ''Test error'')))]
                  (Rejects (NotError (JsNumber ''0.30000000000000004''))) (initial :: nat tracker)))
       = Some (NewError ''0.30000000000000004'')
   \<and> data (fst (execute [Execute, Settle (Rejects (ErrorObject (NewError ''Test error'')))]
                  (Rejects (NotError (JsNumber ''0.30000000000000004''))) (initial :: nat tracker)))
       = None"
proof -
  let ?between = "[Execute, Settle (Rejects (ErrorObject (NewError ''Test error''))) :: nat event]"
  have live: "isMountedRef (run ?between (execute_begin (initial :: nat tracker)))"
    by (simp add: tracker_eval)
  have norm: "toError (NotError (JsNumber ''0.30000000000000004''))
                = Inr (NewError ''0.30000000000000004'')"
    by simp
  have quiet: "list_all (\<lambda>e. \<not> settles_resolved e) ?between"
    by simp
  from live norm quiet execute_failure_live [OF live norm]
  show ?thesis by blast
qed

text \<open>
  C5: from every prior tracker state, the synchronous part of \<^verbatim>\<open>execute\<close> sets status
  loading and clears data and error, and only then invokes the wrapped operation; the
  tracker stays so until a settlement. In particular a call made after a successful one
  shows data absent and status loading before its own result arrives.
\<close>

theorem execute_begin_loading:
  "execute_begin t = call_asyncFunction (execute_clear t)
   \<and> status (execute_clear t) = StatusLoading \<and> data (execute_clear t) = None
   \<and> error (execute_clear t) = None \<and> calls (execute_clear t) = calls t
   \<and> status (execute_begin t) = StatusLoading \<and> data (execute_begin t) = None
   \<and> error (execute_begin t) = None \<and> calls (execute_begin t) = Suc (calls t)
   \<and> status (execute_begin (fst (execute between (Resolves r) t))) = StatusLoading
   \<and> data (execute_begin (fst (execute between (Resolves r) t))) = None"
  by (simp add: execute_begin_def execute_clear_def call_asyncFunction_def setters)

text \<open>
  C6: from every prior tracker state, \<^verbatim>\<open>reset()\<close> yields status idle, data absent and
  error absent.
\<close>

theorem reset_yields_idle:
  "status (reset t) = StatusIdle \<and> data (reset t) = None \<and> error (reset t) = None"
  by (simp add: reset_def setters)

text \<open>
  C7: in every state the tracker can be in, after any sequence of events from any state,
  the \<^verbatim>\<open>loading\<close> field the hook returns equals \<^verbatim>\<open>status === 'loading'\<close>. The tracker has no
  cell for it: it is computed from the status on every render.
\<close>

theorem loading_is_derived:
  "ret_loading (useAsync_return (run evs t))
     = (ret_status (useAsync_return (run evs t)) = StatusLoading)
   \<and> ret_status (useAsync_return (run evs t)) = status (run evs t)"
  by (simp add: useAsync_return_def)

section \<open>Properties of the clipboard writer\<close>

lemma copy_undeclared:
  "copy NavigatorUndeclared text options = ([], Some (Rejects navigator_is_not_defined))"
  by (simp add: copy_def)

lemma copy_missing:
  "copy (Navigator None) text options =
     (ConsoleWarn ''Clipboard not supported'' []
        # fst (call_onError options (NewError ''Clipboard not supported'') text),
      Some (case snd (call_onError options (NewError ''Clipboard not supported'') text) of
              Some v \<Rightarrow> Rejects v | None \<Rightarrow> Resolves False))"
  by (simp add: copy_def split: prod.splits)

lemma copy_pending:
  "writeText text = None \<Longrightarrow>
   copy (Navigator (Some writeText)) text options = ([WriteText text], None)"
  by (simp add: copy_def)

lemma copy_catch_eq:
  "copy_catch err text options =
     (case toError err of
        Inl thrown \<Rightarrow> ([ConsoleWarn ''Copy failed'' [err], SetCopiedText None], Rejects thrown)
      | Inr errorObj \<Rightarrow>
          (ConsoleWarn ''Copy failed'' [err] # SetCopiedText None
             # fst (call_onError options errorObj text),
           case snd (call_onError options errorObj text) of
             Some v \<Rightarrow> Rejects v | None \<Rightarrow> Resolves False))"
  by (simp add: copy_catch_def split: prod.splits sum.splits)

lemma copy_rejected:
  "writeText text = Some (Rejects err) \<Longrightarrow>
   copy (Navigator (Some writeText)) text options =
     (WriteText text # fst (copy_catch err text options), Some (snd (copy_catch err text options)))"
  by (simp add: copy_def split: prod.splits)

lemma copy_resolved:
  "writeText text = Some (Resolves u) \<Longrightarrow>
   copy (Navigator (Some writeText)) text options =
     (case snd (call_onSuccess options text) of
        None \<Rightarrow>
          (WriteText text # SetCopiedText (Some text) # fst (call_onSuccess options text),
           Some (Resolves True))
      | Some err \<Rightarrow>
          (WriteText text # SetCopiedText (Some text) # fst (call_onSuccess options text)
             @ fst (copy_catch err text options),
           Some (snd (copy_catch err text options))))"
  by (simp add: copy_def split: prod.splits option.splits)

lemma call_onError_effects:
  "fst (call_onError options err text)
     = (if onError_supplied options then [OnError err text] else [])"
  by (simp add: call_onError_def onError_supplied_def split: option.splits)

lemma call_onSuccess_effects:
  "fst (call_onSuccess options text)
     = (if onSuccess_supplied options then [OnSuccess text] else [])"
  by (simp add: call_onSuccess_def onSuccess_supplied_def split: option.splits)

lemma call_onError_not_supplied:
  "\<not> onError_supplied options \<Longrightarrow> snd (call_onError options err text) = None"
  by (simp add: call_onError_def onError_supplied_def split: option.splits)

lemma call_onSuccess_not_supplied:
  "\<not> onSuccess_supplied options \<Longrightarrow> snd (call_onSuccess options text) = None"
  by (simp add: call_onSuccess_def onSuccess_supplied_def split: option.splits)

text \<open>The five ways the platform can answer one call.\<close>

lemma platform_cases:
  obtains (undeclared) "nav = NavigatorUndeclared"
  | (missing) "nav = Navigator None"
  | (pending) writeText where "nav = Navigator (Some writeText)" "writeText tx = None"
  | (rejected) writeText err where
      "nav = Navigator (Some writeText)" "writeText tx = Some (Rejects err)"
  | (resolved) writeText u where
      "nav = Navigator (Some writeText)" "writeText tx = Some (Resolves u)"
proof (cases nav)
  case NavigatorUndeclared
  then show ?thesis by (rule undeclared)
next
  case (Navigator clipboard)
  show ?thesis
  proof (cases clipboard)
    case None
    with Navigator show ?thesis by (auto intro: missing)
  next
    case (Some writeText)
    show ?thesis
    proof (cases "writeText tx")
      case None
      with Navigator Some show ?thesis by (auto intro: pending)
    next
      case inner: (Some oc)
      show ?thesis
      proof (cases oc)
        case (Resolves u)
        with Navigator Some inner show ?thesis by (auto intro: resolved)
      next
        case (Rejects err)
        with Navigator Some inner show ?thesis by (auto intro: rejected)
      qed
    qed
  qed
qed

lemmas copy_eval = copy_def copy_catch_def call_onError_def call_onSuccess_def
  branch_of_def caught_def copiedText_after_def onError_supplied_def onSuccess_supplied_def
  fn_returns_def fn_throws_def writeText_resolves_def writeText_rejects_def
  writeText_pending_def mockData_def object_without_prototype_def
  navigator_is_not_defined_def convertible_def

text \<open>
  With \<^verbatim>\<open>'old'\<close> in the state cell, a call whose write rejects clears the cell, and a call
  made without the clipboard capability leaves \<^verbatim>\<open>'old'\<close> in it.
\<close>

theorem copiedText_per_branch_counterexample:
  "copiedText_after
     (fst (copy (Navigator (Some (writeText_rejects (NotError (JsString ''string error'')))))
             mockData None))
     (Some ''old'') = None
   \<and> copiedText_after (fst (copy (Navigator None) mockData None)) (Some ''old'') = Some ''old''"
  by (simp add: copy_eval)

text \<open>
  C1 (amended): \<^verbatim>\<open>copy(text, options)\<close> writes a text into \<^verbatim>\<open>copiedText\<close> only after its
  write succeeded, and the text is \<open>text\<close>; after a call whose write succeeded and whose
  \<^verbatim>\<open>onSuccess\<close>, if any, returned, \<^verbatim>\<open>copiedText\<close> is \<open>text\<close>; when the write fails,
  \<^verbatim>\<open>copiedText\<close> is cleared; when the clipboard capability is missing, be it that
  \<^verbatim>\<open>navigator.clipboard\<close> is absent or that \<^verbatim>\<open>navigator\<close> is not declared, \<^verbatim>\<open>copiedText\<close> is left
  as it was.
\<close>

theorem copiedText_per_branch:
  "(SetCopiedText (Some text') \<in> set (fst (copy navigator text options))
      \<longrightarrow> text' = text \<and> branch_of navigator text = Some WriteSuccess)
   \<and> (branch_of navigator text = Some WriteSuccess \<longrightarrow> snd (call_onSuccess options text) = None
      \<longrightarrow> copiedText_after (fst (copy navigator text options)) prev = Some text)
   \<and> (branch_of navigator text = Some WriteFailure
      \<longrightarrow> copiedText_after (fst (copy navigator text options)) prev = None)
   \<and> (branch_of navigator text = Some CapabilityMissing
      \<longrightarrow> copiedText_after (fst (copy navigator text options)) prev = prev)
   \<and> (navigator = NavigatorUndeclared
      \<longrightarrow> copiedText_after (fst (copy navigator text options)) prev = prev)"
proof (cases rule: platform_cases [where nav = navigator and tx = "text"])
  case undeclared
  then show ?thesis
    by (simp add: copy_undeclared branch_of_def copiedText_after_def)
next
  case missing
  then show ?thesis
    by (simp add: copy_missing call_onError_effects branch_of_def copiedText_after_def)
next
  case (pending writeText)
  then show ?thesis
    by (simp add: copy_pending branch_of_def)
next
  case (rejected writeText err)
  then show ?thesis
    by (simp add: copy_rejected copy_catch_eq call_onError_effects branch_of_def
        copiedText_after_def split: sum.splits)
next
  case (resolved writeText u)
  then show ?thesis
    by (simp add: copy_resolved copy_catch_eq call_onError_effects call_onSuccess_effects
        branch_of_def copiedText_after_def split: option.splits sum.splits)
qed

theorem copiedText_per_branch_witness:
  "SetCopiedText (Some mockData)
     \<in> set (fst (copy (Navigator (Some writeText_resolves)) mockData None))
   \<and> branch_of (Navigator (Some writeText_resolves)) mockData = Some WriteSuccess
   \<and> snd (call_onSuccess None mockData) = None
   \<and> copiedText_after (fst (copy (Navigator (Some writeText_resolves)) mockData None)) None
       = Some mockData
   \<and> branch_of (Navigator (Some (writeText_rejects object_without_prototype))) mockData
       = Some WriteFailure
   \<and> copiedText_after
       (fst (copy (Navigator (Some (writeText_rejects object_without_prototype))) mockData None))
       (Some mockData) = None
   \<and> branch_of (Navigator None) mockData = Some CapabilityMissing
   \<and> copiedText_after (fst (copy (Navigator None) mockData None)) (Some mockData) = Some mockData
   \<and> copiedText_after (fst (copy NavigatorUndeclared mockData None)) (Some mockData)
       = Some mockData"
proof -
  have written:
    "SetCopiedText (Some mockData)
       \<in> set (fst (copy (Navigator (Some writeText_resolves)) mockData None))"
    by (simp add: copy_eval)
  have ok: "branch_of (Navigator (Some writeText_resolves)) mockData = Some WriteSuccess"
    and returned: "snd (call_onSuccess None mockData) = None"
    and failed: "branch_of (Navigator (Some (writeText_rejects object_without_prototype))) mockData
                   = Some WriteFailure"
    and missing: "branch_of (Navigator None) mockData = Some CapabilityMissing"
    by (simp_all add: branch_of_def call_onSuccess_def writeText_resolves_def
        writeText_rejects_def)
  from written ok returned failed missing
    copiedText_per_branch [of mockData "Navigator (Some writeText_resolves)" mockData None None]
    copiedText_per_branch
      [of mockData "Navigator (Some (writeText_rejects object_without_prototype))"
          mockData None "Some mockData"]
    copiedText_per_branch [of mockData "Navigator None" mockData None "Some mockData"]
    copiedText_per_branch [of mockData NavigatorUndeclared mockData None "Some mockData"]
  show ?thesis by blast
qed

text \<open>
  Two calls made without the clipboard capability that do not resolve to \<^verbatim>\<open>false\<close>. With
  \<^verbatim>\<open>navigator.clipboard\<close> absent, an \<^verbatim>\<open>onError\<close> that throws makes the promise of \<^verbatim>\<open>copy\<close> reject
  with the thrown value: the call is outside any \<^verbatim>\<open>try\<close>. With \<^verbatim>\<open>navigator\<close> not declared, the
  guard throws: nothing is logged, \<^verbatim>\<open>onError\<close> is not invoked and the promise rejects.
\<close>

theorem copy_without_capability_counterexample:
  "snd (copy (Navigator None) mockData
         (Some \<lparr>onSuccess = Some fn_returns,
                onError = Some (fn_throws (NotError (JsString ''handler failed'')))\<rparr>))
     = Some (Rejects (NotError (JsString ''handler failed'')))
   \<and> copy NavigatorUndeclared mockData
         (Some \<lparr>onSuccess = Some fn_returns, onError = Some fn_returns\<rparr>)
     = ([], Some (Rejects navigator_is_not_defined))"
  by (simp add: copy_eval)

text \<open>
  C8 (amended): a call \<^verbatim>\<open>copy(text, options)\<close> made while \<^verbatim>\<open>navigator\<close> is declared and its
  clipboard is absent invokes \<^verbatim>\<open>onError\<close> exactly once when it is supplied, with the error
  \<^verbatim>\<open>Clipboard not supported\<close> and the text, invokes \<^verbatim>\<open>onSuccess\<close> never and calls
  \<^verbatim>\<open>writeText\<close> never; if that invocation of \<^verbatim>\<open>onError\<close> returns (or none is made), the
  call resolves to \<^verbatim>\<open>false\<close>.
\<close>

theorem copy_without_capability:
  "filter is_OnError (fst (copy (Navigator None) text options))
     = (if onError_supplied options
        then [OnError (NewError ''Clipboard not supported'') text] else [])
   \<and> filter is_OnSuccess (fst (copy (Navigator None) text options)) = []
   \<and> filter is_WriteText (fst (copy (Navigator None) text options)) = []
   \<and> (list_all (returned options) (fst (copy (Navigator None) text options))
        \<longrightarrow> snd (copy (Navigator None) text options) = Some (Resolves False))"
  by (simp add: copy_missing call_onError_effects call_onError_not_supplied)

theorem copy_without_capability_witness:
  "list_all (returned (Some \<lparr>onSuccess = Some fn_returns, onError = Some fn_returns\<rparr>))
     (fst (copy (Navigator None) mockData
             (Some \<lparr>onSuccess = Some fn_returns, onError = Some fn_returns\<rparr>)))
   \<and> snd (copy (Navigator None) mockData
            (Some \<lparr>onSuccess = Some fn_returns, onError = Some fn_returns\<rparr>))
        = Some (Resolves False)
   \<and> filter is_OnError
        (fst (copy (Navigator None) mockData
                (Some \<lparr>onSuccess = Some fn_returns, onError = Some fn_returns\<rparr>)))
        = [OnError (NewError ''Clipboard not supported'') mockData]"
proof -
  let ?opts = "Some \<lparr>onSuccess = Some fn_returns, onError = Some fn_returns\<rparr>"
  have returned: "list_all (returned ?opts) (fst (copy (Navigator None) mockData ?opts))"
    by (simp add: copy_eval)
  have supplied: "onError_supplied ?opts"
    by (simp add: onError_supplied_def)
  from returned supplied copy_without_capability [of mockData ?opts]
  show ?thesis by simp
qed

text \<open>
  Four calls whose promise rejects. A wrapped operation that rejects with
  \<^verbatim>\<open>Object.create(null)\<close> makes \<^verbatim>\<open>String(err)\<close> throw inside the \<^verbatim>\<open>catch\<close> block of \<^verbatim>\<open>execute\<close>, and
  a write that rejects with it does the same inside the \<^verbatim>\<open>catch\<close> block of \<^verbatim>\<open>copy\<close>, with no
  callback supplied. A write that rejects and an \<^verbatim>\<open>onError\<close> that throws: the \<^verbatim>\<open>catch\<close> block
  is left by the throw. And with \<^verbatim>\<open>navigator\<close> not declared the guard of \<^verbatim>\<open>copy\<close> throws.
\<close>

theorem never_rejects_counterexample:
  "isMountedRef (run [] (execute_begin (initial :: nat tracker)))
   \<and> snd (execute [] (Rejects object_without_prototype) (initial :: nat tracker))
       = Rejects (ErrorObject (NewError ''Cannot convert object to primitive value''))
   \<and> snd (copy (Navigator (Some (writeText_rejects object_without_prototype))) mockData None)
       = Some (Rejects (ErrorObject (NewError ''Cannot convert object to primitive value'')))
   \<and> snd (copy (Navigator (Some (writeText_rejects (NotError (JsString ''string error'')))))
            mockData
            (Some \<lparr>onSuccess = None,
                   onError = Some (fn_throws (ErrorObject (NewError ''handler failed'')))\<rparr>))
       = Some (Rejects (ErrorObject (NewError ''handler failed'')))
   \<and> snd (copy NavigatorUndeclared mockData None) = Some (Rejects navigator_is_not_defined)"
  by (simp add: copy_eval tracker_eval)

text \<open>
  C9 (amended): a call of \<^verbatim>\<open>execute\<close> never rejects, whatever the wrapped operation does and
  whatever happens between the start of the call and its settlement, provided that a
  value it rejects with while the consumer is live is an error or has a string
  conversion that returns; the failure is then surfaced through the state: status error
  and the normalised error in the error field. A call of \<^verbatim>\<open>copy\<close> never rejects, whatever the
  write does, provided that \<^verbatim>\<open>navigator\<close> is declared, that the value its \<^verbatim>\<open>catch\<close> block is
  entered with, if it is entered, is an error or has a string conversion that returns,
  and that the invocation of \<^verbatim>\<open>onError\<close> it makes, if it makes one, returns; a missing
  capability or a failure caught is then surfaced through the result \<^verbatim>\<open>false\<close> and through
  one invocation of \<^verbatim>\<open>onError\<close> when it is supplied.
\<close>

theorem never_rejects:
  "((\<forall>v. oc = Rejects v \<longrightarrow> isMountedRef (run between (execute_begin t)) \<longrightarrow> convertible v)
      \<longrightarrow> snd (execute between oc t) = Resolves ()
        \<and> (\<forall>v. oc = Rejects v \<longrightarrow> isMountedRef (run between (execute_begin t))
              \<longrightarrow> status (fst (execute between oc t)) = StatusError
                \<and> (\<exists>e. toError v = Inr e \<and> error (fst (execute between oc t)) = Some e)))
   \<and> (navigator \<noteq> NavigatorUndeclared
      \<longrightarrow> (\<forall>err. caught navigator text options = Some err \<longrightarrow> convertible err)
      \<longrightarrow> list_all (returned options) (filter is_OnError (fst (copy navigator text options)))
      \<longrightarrow> (\<forall>thrown. snd (copy navigator text options) \<noteq> Some (Rejects thrown))
        \<and> (branch_of navigator text = Some CapabilityMissing
             \<or> caught navigator text options \<noteq> None
            \<longrightarrow> snd (copy navigator text options) = Some (Resolves False)
              \<and> length (filter is_OnError (fst (copy navigator text options)))
                  = (if onError_supplied options then 1 else 0)))"
proof (intro conjI impI)
  assume ok: "\<forall>v. oc = Rejects v \<longrightarrow> isMountedRef (run between (execute_begin t)) \<longrightarrow> convertible v"
  show "snd (execute between oc t) = Resolves ()"
    using ok by (cases oc)
      (auto simp add: execute_def execute_settle_def convertible_def split: sum.splits)
  show "\<forall>v. oc = Rejects v \<longrightarrow> isMountedRef (run between (execute_begin t))
          \<longrightarrow> status (fst (execute between oc t)) = StatusError
            \<and> (\<exists>e. toError v = Inr e \<and> error (fst (execute between oc t)) = Some e)"
    using ok by (cases oc)
      (auto simp add: execute_def execute_settle_def convertible_def setStatus_def setError_def
         split: sum.splits)
next
  assume declared: "navigator \<noteq> NavigatorUndeclared"
    and conv: "\<forall>err. caught navigator text options = Some err \<longrightarrow> convertible err"
    and ret: "list_all (returned options) (filter is_OnError (fst (copy navigator text options)))"
  have facts:
    "(\<forall>thrown. snd (copy navigator text options) \<noteq> Some (Rejects thrown))
     \<and> (branch_of navigator text = Some CapabilityMissing
          \<or> caught navigator text options \<noteq> None
         \<longrightarrow> snd (copy navigator text options) = Some (Resolves False)
           \<and> length (filter is_OnError (fst (copy navigator text options)))
               = (if onError_supplied options then 1 else 0))"
  proof (cases rule: platform_cases [where nav = navigator and tx = "text"])
    case undeclared
    with declared show ?thesis by simp
  next
    case missing
    with ret show ?thesis
      by (auto simp add: copy_missing call_onError_effects call_onError_not_supplied
          branch_of_def caught_def split: if_splits)
  next
    case (pending writeText)
    then show ?thesis
      by (simp add: copy_pending branch_of_def caught_def)
  next
    case (rejected writeText err)
    with conv have "convertible err"
      by (simp add: caught_def)
    then obtain e where "toError err = Inr e"
      by (auto simp add: convertible_def split: sum.splits)
    with rejected ret show ?thesis
      by (auto simp add: copy_rejected copy_catch_eq call_onError_effects
          call_onError_not_supplied branch_of_def caught_def split: if_splits)
  next
    case (resolved writeText u)
    show ?thesis
    proof (cases "snd (call_onSuccess options text)")
      case None
      with resolved show ?thesis
        by (simp add: copy_resolved branch_of_def caught_def)
    next
      case (Some err)
      with resolved conv have "convertible err"
        by (simp add: caught_def)
      then obtain e where "toError err = Inr e"
        by (auto simp add: convertible_def split: sum.splits)
      with resolved Some ret show ?thesis
        by (auto simp add: copy_resolved copy_catch_eq call_onError_effects
            call_onSuccess_effects call_onError_not_supplied branch_of_def caught_def
            split: if_splits)
    qed
  qed
  from facts show "\<forall>thrown. snd (copy navigator text options) \<noteq> Some (Rejects thrown)"
    by blast
  from facts show "snd (copy navigator text options) = Some (Resolves False)"
    if "branch_of navigator text = Some CapabilityMissing
        \<or> caught navigator text options \<noteq> None"
    using that by blast
  from facts show "length (filter is_OnError (fst (copy navigator text options)))
                     = (if onError_supplied options then 1 else 0)"
    if "branch_of navigator text = Some CapabilityMissing
        \<or> caught navigator text options \<noteq> None"
    using that by blast
qed

theorem never_rejects_witness:
  "isMountedRef (run [] (execute_begin (initial :: nat tracker)))
   \<and> convertible (NotError (JsString ''string error''))
   \<and> snd (execute [] (Rejects (NotError (JsString ''string error''))) (initial :: nat tracker))
       = Resolves ()
   \<and> status (fst (execute [] (Rejects (NotError (JsString ''string error'')))
                  (initial :: nat tracker))) = StatusError
   \<and> error (fst (execute [] (Rejects (NotError (JsString ''string error'')))
                  (initial :: nat tracker))) = Some (NewError ''string error'')
   \<and> caught (Navigator (Some (writeText_rejects (NotError (JsString ''string error'')))))
        mockData (Some \<lparr>onSuccess = None, onError = Some fn_returns\<rparr>)
       = Some (NotError (JsString ''string error''))
   \<and> list_all (returned (Some \<lparr>onSuccess = None, onError = Some fn_returns\<rparr>))
        (filter is_OnError
          (fst (copy (Navigator (Some (writeText_rejects (NotError (JsString ''string error'')))))
                  mockData (Some \<lparr>onSuccess = None, onError = Some fn_returns\<rparr>))))
   \<and> snd (copy (Navigator (Some (writeText_rejects (NotError (JsString ''string error'')))))
            mockData (Some \<lparr>onSuccess = None, onError = Some fn_returns\<rparr>))
       = Some (Resolves False)
   \<and> length (filter is_OnError
        (fst (copy (Navigator (Some (writeText_rejects (NotError (JsString ''string error'')))))
                mockData (Some \<lparr>onSuccess = None, onError = Some fn_returns\<rparr>)))) = 1"
proof -
  let ?v = "NotError (JsString ''string error'')"
  let ?oc = "Rejects ?v :: nat response outcome"
  let ?nav = "Navigator (Some (writeText_rejects ?v))"
  let ?opts = "Some \<lparr>onSuccess = None, onError = Some fn_returns\<rparr>"
  have live: "isMountedRef (run [] (execute_begin (initial :: nat tracker)))"
    by (simp add: tracker_eval)
  have conv: "convertible ?v"
    by (simp add: convertible_def)
  have norm: "toError ?v = Inr (NewError ''string error'')"
    by simp
  have entered: "caught ?nav mockData ?opts = Some ?v"
    by (simp add: caught_def writeText_rejects_def)
  have ret: "list_all (returned ?opts) (filter is_OnError (fst (copy ?nav mockData ?opts)))"
    by (simp add: copy_eval)
  have supplied: "onError_supplied ?opts"
    by (simp add: onError_supplied_def)
  have declared: "?nav \<noteq> NavigatorUndeclared"
    by simp
  have tracker_part:
    "snd (execute [] ?oc (initial :: nat tracker)) = Resolves ()
     \<and> status (fst (execute [] ?oc (initial :: nat tracker))) = StatusError
     \<and> (\<exists>e. toError ?v = Inr e \<and> error (fst (execute [] ?oc (initial :: nat tracker))) = Some e)"
    using never_rejects [of ?oc "[]" "initial :: nat tracker" ?nav mockData ?opts] live conv
    by blast
  have copy_part:
    "snd (copy ?nav mockData ?opts) = Some (Resolves False)
     \<and> length (filter is_OnError (fst (copy ?nav mockData ?opts)))
         = (if onError_supplied ?opts then 1 else 0)"
    using never_rejects [of ?oc "[]" "initial :: nat tracker" ?nav mockData ?opts]
      declared conv entered ret
    by auto
  from tracker_part norm have "error (fst (execute [] ?oc (initial :: nat tracker)))
                                 = Some (NewError ''string error'')"
    by auto
  with live conv entered ret tracker_part copy_part supplied show ?thesis
    by simp
qed

text \<open>
  Three calls that settle outside the three branches' pattern. A write that resolves and
  an \<^verbatim>\<open>onSuccess\<close> that throws: the throw is inside the \<^verbatim>\<open>try\<close> block, so the \<^verbatim>\<open>catch\<close> block
  runs after the success path; both callbacks are invoked, \<^verbatim>\<open>copiedText\<close> is set to the text
  and then cleared, and the call resolves to \<^verbatim>\<open>false\<close>. A write that rejects and an \<^verbatim>\<open>onError\<close>
  that throws: \<^verbatim>\<open>onError\<close> is invoked and the call does not resolve to \<^verbatim>\<open>false\<close>, it rejects.
  And with \<^verbatim>\<open>navigator\<close> not declared the call settles, by rejection, without entering any
  branch: it has no effect at all.
\<close>

theorem copy_outcomes_counterexample:
  "branch_of (Navigator (Some writeText_resolves)) mockData = Some WriteSuccess
   \<and> fst (copy (Navigator (Some writeText_resolves)) mockData
         (Some \<lparr>onSuccess = Some (fn_throws (NotError (JsString ''x''))),
                onError = Some fn_returns\<rparr>))
       = [WriteText mockData, SetCopiedText (Some mockData), OnSuccess mockData,
          ConsoleWarn ''Copy failed'' [NotError (JsString ''x'')], SetCopiedText None,
          OnError (NewError ''x'') mockData]
   \<and> snd (copy (Navigator (Some writeText_resolves)) mockData
         (Some \<lparr>onSuccess = Some (fn_throws (NotError (JsString ''x''))),
                onError = Some fn_returns\<rparr>))
       = Some (Resolves False)
   \<and> copy (Navigator (Some (writeText_rejects (NotError (JsString ''string error'')))))
         mockData
         (Some \<lparr>onSuccess = None, onError = Some (fn_throws (NotError (JsString ''y'')))\<rparr>)
       = ([WriteText mockData,
           ConsoleWarn ''Copy failed'' [NotError (JsString ''string error'')],
           SetCopiedText None, OnError (NewError ''string error'') mockData],
          Some (Rejects (NotError (JsString ''y''))))
   \<and> branch_of NavigatorUndeclared mockData = None
   \<and> copy NavigatorUndeclared mockData None = ([], Some (Rejects navigator_is_not_defined))"
  by (simp add: copy_eval)

text \<open>
  C10 (amended): for every call \<^verbatim>\<open>copy(text, options)\<close> that settles, made with \<^verbatim>\<open>navigator\<close>
  declared, and in which every invocation of a callback that the call makes returns,
  exactly one of the three branches ran; the call resolves to \<^verbatim>\<open>true\<close> if and only if the
  success branch ran; \<^verbatim>\<open>onSuccess\<close>, when supplied, is invoked once if the success branch ran
  and not at all otherwise; \<^verbatim>\<open>onError\<close>, when supplied, is invoked once if the call resolves
  to \<^verbatim>\<open>false\<close> and not at all otherwise; \<^verbatim>\<open>copiedText\<close> is set to \<open>text\<close> exactly when the
  success branch ran; and the two callbacks are never both invoked.
\<close>

theorem copy_outcomes:
  assumes "navigator \<noteq> NavigatorUndeclared"
    and "list_all (returned options) (fst (copy navigator text options))"
    and "snd (copy navigator text options) = Some res"
  shows "(\<exists>b. branch_of navigator text = Some b)
    \<and> (res = Resolves True \<longleftrightarrow> branch_of navigator text = Some WriteSuccess)
    \<and> length (filter is_OnSuccess (fst (copy navigator text options)))
        = (if branch_of navigator text = Some WriteSuccess \<and> onSuccess_supplied options
           then 1 else 0)
    \<and> length (filter is_OnError (fst (copy navigator text options)))
        = (if res = Resolves False \<and> onError_supplied options then 1 else 0)
    \<and> (SetCopiedText (Some text) \<in> set (fst (copy navigator text options))
         \<longleftrightarrow> branch_of navigator text = Some WriteSuccess)
    \<and> \<not> (list_ex is_OnSuccess (fst (copy navigator text options))
           \<and> list_ex is_OnError (fst (copy navigator text options)))"
proof (cases rule: platform_cases [where nav = navigator and tx = "text"])
  case undeclared
  with assms(1) show ?thesis by simp
next
  case missing
  with assms show ?thesis
    by (auto simp add: copy_missing call_onError_effects call_onError_not_supplied
        branch_of_def split: if_splits)
next
  case (pending writeText)
  with assms show ?thesis
    by (simp add: copy_pending)
next
  case (rejected writeText err)
  with assms show ?thesis
    by (auto simp add: copy_rejected copy_catch_eq call_onError_effects
        call_onError_not_supplied branch_of_def split: if_splits sum.splits)
next
  case (resolved writeText u)
  from assms(2) resolved have "snd (call_onSuccess options text) = None"
    by (cases "onSuccess_supplied options")
       (auto simp add: copy_resolved call_onSuccess_effects call_onSuccess_not_supplied
          split: option.splits)
  with assms resolved show ?thesis
    by (auto simp add: copy_resolved call_onSuccess_effects branch_of_def)
qed

theorem copy_outcomes_witness:
  "Navigator (Some writeText_resolves) \<noteq> NavigatorUndeclared
   \<and> list_all (returned (Some \<lparr>onSuccess = Some fn_returns, onError = Some fn_returns\<rparr>))
        (fst (copy (Navigator (Some writeText_resolves)) mockData
                (Some \<lparr>onSuccess = Some fn_returns, onError = Some fn_returns\<rparr>)))
   \<and> snd (copy (Navigator (Some writeText_resolves)) mockData
            (Some \<lparr>onSuccess = Some fn_returns, onError = Some fn_returns\<rparr>))
        = Some (Resolves True)
   \<and> branch_of (Navigator (Some writeText_resolves)) mockData = Some WriteSuccess
   \<and> length (filter is_OnSuccess
        (fst (copy (Navigator (Some writeText_resolves)) mockData
               (Some \<lparr>onSuccess = Some fn_returns, onError = Some fn_returns\<rparr>)))) = 1
   \<and> length (filter is_OnError
        (fst (copy (Navigator (Some writeText_resolves)) mockData
               (Some \<lparr>onSuccess = Some fn_returns, onError = Some fn_returns\<rparr>)))) = 0"
proof -
  let ?nav = "Navigator (Some writeText_resolves)"
  let ?opts = "Some \<lparr>onSuccess = Some fn_returns, onError = Some fn_returns\<rparr>"
  have declared: "?nav \<noteq> NavigatorUndeclared"
    by simp
  have returns: "list_all (returned ?opts) (fst (copy ?nav mockData ?opts))"
    by (simp add: copy_eval)
  have settled: "snd (copy ?nav mockData ?opts) = Some (Resolves True)"
    by (simp add: copy_eval)
  have supplied: "onSuccess_supplied ?opts"
    by (simp add: onSuccess_supplied_def)
  have ran: "branch_of ?nav mockData = Some WriteSuccess"
    using copy_outcomes [OF declared returns settled] by simp
  have counts:
    "length (filter is_OnSuccess (fst (copy ?nav mockData ?opts))) = 1
     \<and> length (filter is_OnError (fst (copy ?nav mockData ?opts))) = 0"
    using copy_outcomes [OF declared returns settled] by (simp add: ran supplied)
  from declared returns settled ran counts show ?thesis by blast
qed

end
